theory Spec2Isabelle
  imports Complex_Main
begin

section \<open>Arrays and the array operations the notebooks call\<close>

text \<open>
  The two notebooks (Poisson equation, Neo-Hookean hyperelasticity) define small callbacks
  over arrays handed to them by the finite-element library. A one-dimensional array (a
  point, a solution value) is a list of numbers, a two-dimensional array (a displacement
  gradient) a list of rows. Floating-point numbers are read as reals throughout.

  Operations of the array library that can fail return a sum: \<open>Inl\<close> the failure. An
  index outside an array is marked \<open>IndexOutOfBounds\<close>: what happens there belongs to
  the array library, and every statement below is about in-range access.
\<close>

type_synonym array1 = "real list"

datatype error = IndexOutOfBounds | ShapeMismatch | NotSquare

definition getitem :: "array1 \<Rightarrow> nat \<Rightarrow> error + real" where
  "getitem p i = (if i < length p then Inr (p ! i) else Inl IndexOutOfBounds)"




text \<open>\<open>np.isclose(a, b, rtol=1e-5, atol)\<close>: \<open>|a - b| <= atol + rtol * |b|\<close>.\<close>

definition isclose :: "real \<Rightarrow> real \<Rightarrow> real \<Rightarrow> bool" where
  "isclose a b atol \<longleftrightarrow> \<bar>a - b\<bar> \<le> atol + (1 / 100000) * \<bar>b\<bar>"












section \<open>The problem instance\<close>

text \<open>
  The constructor arguments of the library's \<open>Problem\<close> class that the notebooks pass,
  apart from the mesh (an object of the library). The Dirichlet descriptor is a list
  whose entries are lists of different kinds, hence the datatype of entries.
\<close>

type_synonym location_fn = "array1 \<Rightarrow> error + bool"
type_synonym value_fn = "array1 \<Rightarrow> error + real"

datatype bc_entry =
    LocationFns "location_fn list"
  | Vecs "int list"
  | ValueFns "value_fn list"

record problem =
  vec :: nat
  dim :: nat
  ele_type :: string
  dirichlet_bc_info :: "bc_entry list"
  location_fns :: "location_fn list option"

section \<open>Poisson notebook\<close>

subsection \<open>Weak form\<close>

type_synonym point_map = "array1 \<Rightarrow> array1 \<Rightarrow> error + array1"

definition mass_map :: point_map where
  "mass_map u x =
     (case getitem x 0 of
        Inl e \<Rightarrow> Inl e
      | Inr x0 \<Rightarrow>
         (case getitem x 1 of
            Inl e \<Rightarrow> Inl e
          | Inr x1 \<Rightarrow>
             Inr [- (10 * exp (- ((x0 - 0.5) ^ 2 + (x1 - 0.5) ^ 2) / 0.02))]))"

definition surface_map :: point_map where
  "surface_map u x =
     (case getitem x 0 of
        Inl e \<Rightarrow> Inl e
      | Inr x0 \<Rightarrow> Inr [- sin (5 * x0)])"

definition Poisson_get_tensor_map :: "problem \<Rightarrow> 'a \<Rightarrow> 'a" where
  "Poisson_get_tensor_map self = (\<lambda>x. x)"

definition Poisson_get_mass_map :: "problem \<Rightarrow> point_map" where
  "Poisson_get_mass_map self = mass_map"

definition Poisson_get_surface_maps :: "problem \<Rightarrow> point_map list" where
  "Poisson_get_surface_maps self = [surface_map, surface_map]"

subsection \<open>Boundary conditions\<close>

definition Lx :: real where "Lx = 1"
definition Ly :: real where "Ly = 1"

definition left :: location_fn where
  "left point =
     (case getitem point 0 of Inl e \<Rightarrow> Inl e | Inr p0 \<Rightarrow> Inr (isclose p0 0 (1 / 100000)))"

definition right :: location_fn where
  "right point =
     (case getitem point 0 of Inl e \<Rightarrow> Inl e | Inr p0 \<Rightarrow> Inr (isclose p0 Lx (1 / 100000)))"

definition bottom :: location_fn where
  "bottom point =
     (case getitem point 1 of Inl e \<Rightarrow> Inl e | Inr p1 \<Rightarrow> Inr (isclose p1 0 (1 / 100000)))"

definition top :: location_fn where
  "top point =
     (case getitem point 1 of Inl e \<Rightarrow> Inl e | Inr p1 \<Rightarrow> Inr (isclose p1 Ly (1 / 100000)))"

definition dirichlet_val_left :: value_fn where
  "dirichlet_val_left point = Inr 0"

definition dirichlet_val_right :: value_fn where
  "dirichlet_val_right point = Inr 0"

definition poisson_dirichlet_bc_info :: "bc_entry list" where
  "poisson_dirichlet_bc_info =
     [LocationFns [left, right], Vecs [0, 0], ValueFns [dirichlet_val_left, dirichlet_val_right]]"

definition poisson_location_fns :: "location_fn list" where
  "poisson_location_fns = [bottom, top]"

definition poisson_problem :: problem where
  "poisson_problem =
     \<lparr>vec = 1, dim = 2, ele_type = ''QUAD4'',
      dirichlet_bc_info = poisson_dirichlet_bc_info,
      location_fns = Some poisson_location_fns\<rparr>"

section \<open>Hyperelasticity notebook\<close>

subsection \<open>Weak form\<close>






subsection \<open>Boundary conditions\<close>

definition zero_dirichlet_val :: value_fn where
  "zero_dirichlet_val point = Inr 0"

definition dirichlet_val_x2 :: value_fn where
  "dirichlet_val_x2 point =
     (case getitem point 1 of
        Inl e \<Rightarrow> Inl e
      | Inr p1 \<Rightarrow>
         (case getitem point 2 of
            Inl e \<Rightarrow> Inl e
          | Inr p2 \<Rightarrow>
             Inr ((0.5 + (p1 - 0.5) * cos (pi / 3) - (p2 - 0.5) * sin (pi / 3) - p1) / 2)))"

definition dirichlet_val_x3 :: value_fn where
  "dirichlet_val_x3 point =
     (case getitem point 1 of
        Inl e \<Rightarrow> Inl e
      | Inr p1 \<Rightarrow>
         (case getitem point 2 of
            Inl e \<Rightarrow> Inl e
          | Inr p2 \<Rightarrow>
             Inr ((0.5 + (p1 - 0.5) * sin (pi / 3) + (p2 - 0.5) * cos (pi / 3) - p2) / 2)))"

text \<open>Python's \<open>xs * n\<close> on a list: \<open>n\<close> copies of \<open>xs\<close>, one after the other.\<close>

definition list_mul :: "'a list \<Rightarrow> nat \<Rightarrow> 'a list" where
  "list_mul xs n = concat (replicate n xs)"

definition hyperelasticity_dirichlet_bc_info :: "bc_entry list" where
  "hyperelasticity_dirichlet_bc_info =
     [LocationFns (list_mul [left] 3 @ list_mul [right] 3),
      Vecs (list_mul [0, 1, 2] 2),
      ValueFns ([zero_dirichlet_val, dirichlet_val_x2, dirichlet_val_x3]
                @ list_mul [zero_dirichlet_val] 3)]"

definition hyperelasticity_problem :: problem where
  "hyperelasticity_problem =
     \<lparr>vec = 3, dim = 3, ele_type = ''HEX8'',
      dirichlet_bc_info = hyperelasticity_dirichlet_bc_info,
      location_fns = None\<rparr>"

section \<open>The two notebooks as programs\<close>

subsection \<open>Class bodies\<close>

text \<open>
  The three kinds of kernel method a \<open>Problem\<close> subclass can define, and for each class
  of the notebooks the ones its body defines, in the order of the source.
\<close>

datatype hook = GetTensorMap | GetMassMap | GetSurfaceMaps

datatype problem_class = Poisson | HyperElasticity

fun class_body :: "problem_class \<Rightarrow> hook list" where
  "class_body Poisson = [GetTensorMap, GetMassMap, GetSurfaceMaps]"
| "class_body HyperElasticity = [GetTensorMap]"

definition subclasses :: "problem_class list" where
  "subclasses = [Poisson, HyperElasticity]"

definition overrides :: "problem_class \<Rightarrow> hook \<Rightarrow> bool" where
  "overrides c h \<longleftrightarrow> h \<in> set (class_body c)"

subsection \<open>Top-level statements\<close>









subsection \<open>Shape of a Dirichlet descriptor\<close>

fun three_parallel_lists :: "nat \<Rightarrow> bc_entry list \<Rightarrow> bool" where
  "three_parallel_lists v [LocationFns l, Vecs c, ValueFns f] =
     (length l = length c \<and> length c = length f \<and> list_all (\<lambda>i. 0 \<le> i \<and> i < int v) c)"
| "three_parallel_lists v _ = False"

subsection \<open>Kernel calls\<close>





section \<open>Shapes\<close>



section \<open>Properties of the notebooks\<close>

text \<open>
  C1. The callable returned by \<open>Poisson.get_tensor_map\<close> is the identity: for every
  gradient \<open>g\<close> it returns \<open>g\<close>, whatever the instance.
\<close>

theorem poisson_tensor_map_identity: "Poisson_get_tensor_map self g = g"
  by (simp add: Poisson_get_tensor_map_def)

text \<open>
  C3. Not every subclass overrides all three kernel methods: the body of
  \<open>HyperElasticity\<close> defines the tensor map and neither a mass map nor surface maps.
\<close>

theorem hyperelasticity_overrides_counterexample:
  "HyperElasticity \<in> set subclasses \<and>
   \<not> (overrides HyperElasticity GetTensorMap \<and> overrides HyperElasticity GetMassMap \<and>
      overrides HyperElasticity GetSurfaceMaps)"
  by (simp add: subclasses_def overrides_def)

text \<open>
  C3, as the classes are written: every subclass overrides the tensor map; \<open>Poisson\<close>
  overrides the tensor map, the mass map and the surface maps; \<open>HyperElasticity\<close>
  overrides the tensor map and neither of the other two.
\<close>

theorem subclass_overrides:
  "list_all (\<lambda>c. overrides c GetTensorMap) subclasses \<and>
   overrides Poisson GetTensorMap \<and> overrides Poisson GetMassMap \<and>
   overrides Poisson GetSurfaceMaps \<and>
   overrides HyperElasticity GetTensorMap \<and> \<not> overrides HyperElasticity GetMassMap \<and>
   \<not> overrides HyperElasticity GetSurfaceMaps"
  by (simp add: subclasses_def overrides_def)

text \<open>
  C4. In both notebooks the Dirichlet descriptor passed to the constructor is a list of
  exactly three lists (location predicates, component indices, value functions, in that
  order) of equal length, and every component index \<open>i\<close> satisfies \<open>0 \<le> i < vec\<close> for
  the \<open>vec\<close> passed with it.
\<close>

theorem dirichlet_descriptors_wellformed:
  "three_parallel_lists (vec poisson_problem) (dirichlet_bc_info poisson_problem) \<and>
   three_parallel_lists (vec hyperelasticity_problem) (dirichlet_bc_info hyperelasticity_problem)"
  by (simp add: poisson_problem_def poisson_dirichlet_bc_info_def hyperelasticity_problem_def
      hyperelasticity_dirichlet_bc_info_def list_mul_def eval_nat_numeral)





text \<open>
  C9. The mass map and the surface maps of \<open>Poisson\<close> ignore the solution value: for
  every two solution values and every position they return the same result.
\<close>

theorem poisson_maps_ignore_solution:
  "Poisson_get_mass_map self u1 x = Poisson_get_mass_map self u2 x \<and>
   (Poisson_get_surface_maps self ! 0) u1 x = (Poisson_get_surface_maps self ! 0) u2 x \<and>
   (Poisson_get_surface_maps self ! 1) u1 x = (Poisson_get_surface_maps self ! 1) u2 x"
  by (simp add: Poisson_get_mass_map_def Poisson_get_surface_maps_def mass_map_def
      surface_map_def)

text \<open>
  C10. \<open>Poisson.get_surface_maps\<close> returns a list of two entries that are the same
  function, and the list is as long as the list \<open>[bottom, top]\<close> of Neumann locations
  passed to the constructor.
\<close>

theorem surface_maps_match_locations:
  "length (Poisson_get_surface_maps self) = 2 \<and>
   Poisson_get_surface_maps self ! 0 = Poisson_get_surface_maps self ! 1 \<and>
   location_fns poisson_problem = Some [bottom, top] \<and>
   Some (length (Poisson_get_surface_maps self)) = map_option length (location_fns poisson_problem)"
  by (simp add: Poisson_get_surface_maps_def poisson_problem_def poisson_location_fns_def)

end
